theory Spec2Isabelle
  imports Main
begin

section \<open>asyncdl: a download manager for lists of URLs\<close>

text \<open>
  A shallow embedding of \<^verbatim>\<open>asyncdl.go\<close>. Go strings are byte sequences and are
  modelled as \<^typ>\<open>string\<close> (lists of 8-bit characters); \<^verbatim>\<open>len\<close> is \<^const>\<open>length\<close>.
\<close>

subsection \<open>Error values\<close>

text \<open>
  Go \<^verbatim>\<open>error\<close> values that the program creates or inspects, and the operands of a
  \<^verbatim>\<open>Printf\<close>-style format. A format string is kept as the source writes it,
  together with its operands, and is never rendered.
  \<^item> \<open>Canceled\<close> and \<open>DeadlineExceeded\<close> are the two sentinels of package
    \<^verbatim>\<open>context\<close>;
  \<^item> \<open>errors_New msg\<close> is \<^verbatim>\<open>errors.New(msg)\<close>;
  \<^item> \<open>Errorf fmt args\<close> is \<^verbatim>\<open>fmt.Errorf(fmt, args...)\<close> without a \<^verbatim>\<open>%w\<close> verb;
  \<^item> \<open>Wrapf fmt args e\<close> is \<^verbatim>\<open>fmt.Errorf\<close> whose format ends in \<^verbatim>\<open>%w\<close>: \<open>args\<close>
    are the operands before it and \<open>e\<close> the wrapped error;
  \<^item> \<open>EscapeError\<close>, \<open>InvalidHostError\<close> and \<open>URLError op url e\<close> are the error
    types of package \<^verbatim>\<open>net/url\<close>; the last one wraps \<open>e\<close> (the HTTP client
    returns its errors in it);
  \<^item> \<open>net_errCanceled\<close> is the error of package \<^verbatim>\<open>net\<close> for a cancelled
    operation: it wraps nothing, but its \<^verbatim>\<open>Is\<close> method answers
    \<^verbatim>\<open>context.Canceled\<close>.
\<close>

datatype error =
    Canceled
  | DeadlineExceeded
  | errors_New string
  | Errorf string "arg list"
  | Wrapf string "arg list" error
  | EscapeError string
  | InvalidHostError string
  | URLError string string error
  | net_errCanceled
and arg = Str string | Num int | Err error

text \<open>
  \<^verbatim>\<open>errors.Is(err, target)\<close>: follows the \<^verbatim>\<open>Unwrap\<close> chain of \<open>err\<close>; a link
  matches when it equals \<open>target\<close> or its \<^verbatim>\<open>Is\<close> method says so. Go compares
  the errors made by \<^verbatim>\<open>errors.New\<close> and \<^verbatim>\<open>fmt.Errorf\<close> by identity; here they are
  compared by structure, which makes no difference for a sentinel as target.
\<close>

fun errors_Is :: "error \<Rightarrow> error \<Rightarrow> bool" where
  "errors_Is (Wrapf f as e) target = (Wrapf f as e = target \<or> errors_Is e target)"
| "errors_Is (URLError op u e) target = (URLError op u e = target \<or> errors_Is e target)"
| "errors_Is net_errCanceled target = (net_errCanceled = target \<or> target = Canceled)"
| "errors_Is err target = (err = target)"

subsection \<open>Bytes and the string helpers of the Go library\<close>

definition byte :: "char \<Rightarrow> nat" where
  "byte c = of_char c"

definition is_lower :: "char \<Rightarrow> bool" where
  "is_lower c \<longleftrightarrow> byte (CHR ''a'') \<le> byte c \<and> byte c \<le> byte (CHR ''z'')"

definition is_upper :: "char \<Rightarrow> bool" where
  "is_upper c \<longleftrightarrow> byte (CHR ''A'') \<le> byte c \<and> byte c \<le> byte (CHR ''Z'')"

definition is_digit :: "char \<Rightarrow> bool" where
  "is_digit c \<longleftrightarrow> byte (CHR ''0'') \<le> byte c \<and> byte c \<le> byte (CHR ''9'')"

text \<open>\<^verbatim>\<open>strings.HasPrefix\<close> and \<^verbatim>\<open>strings.HasSuffix\<close>.\<close>

definition HasPrefix :: "string \<Rightarrow> string \<Rightarrow> bool" where
  "HasPrefix s p \<longleftrightarrow> take (length p) s = p"

definition HasSuffix :: "string \<Rightarrow> string \<Rightarrow> bool" where
  "HasSuffix s p \<longleftrightarrow> length p \<le> length s \<and> drop (length s - length p) s = p"

text \<open>\<^verbatim>\<open>strings.Cut(s, sep)\<close> for a separator of one byte: before, after, found.\<close>

definition Cut :: "string \<Rightarrow> char \<Rightarrow> string \<times> string \<times> bool" where
  "Cut s sep =
     (if sep \<in> set s
      then (takeWhile (\<lambda>c. c \<noteq> sep) s, tl (dropWhile (\<lambda>c. c \<noteq> sep) s), True)
      else (s, [], False))"

text \<open>\<^verbatim>\<open>strings.Index(s, sub)\<close> and \<^verbatim>\<open>strings.LastIndex(s, sub)\<close>; \<open>None\<close> is Go's \<open>-1\<close>.\<close>

fun Index_from :: "nat \<Rightarrow> string \<Rightarrow> string \<Rightarrow> nat option" where
  "Index_from i [] sub = (if sub = [] then Some i else None)"
| "Index_from i (c # s) sub =
     (if take (length sub) (c # s) = sub then Some i else Index_from (Suc i) s sub)"

definition Index :: "string \<Rightarrow> string \<Rightarrow> nat option" where
  "Index s sub = Index_from 0 s sub"

definition LastIndex :: "string \<Rightarrow> char \<Rightarrow> nat option" where
  "LastIndex s c =
     (if c \<in> set s then Some (length s - 1 - length (takeWhile (\<lambda>x. x \<noteq> c) (rev s)))
      else None)"

text \<open>\<^verbatim>\<open>strings.ToLower\<close> on the ASCII letters (a scheme holds no other letters).\<close>

definition ToLower :: "string \<Rightarrow> string" where
  "ToLower s = map (\<lambda>c. if is_upper c then char_of (byte c + 32) else c) s"

subsection \<open>Package \<^verbatim>\<open>net/url\<close>: parsing a URL\<close>

text \<open>
  \<^verbatim>\<open>basename\<close> calls \<^verbatim>\<open>url.Parse\<close> of the Go standard library and reads the
  \<^verbatim>\<open>Path\<close> field of the result. The library is not part of the repository; the
  definitions below follow its source (\<^verbatim>\<open>net/url/url.go\<close>, Go 1.19, the version
  \<^verbatim>\<open>go.mod\<close> names), function by function. The fields \<^verbatim>\<open>User\<close>, \<^verbatim>\<open>RawPath\<close>
  and \<^verbatim>\<open>RawFragment\<close> of \<^verbatim>\<open>url.URL\<close> are left out: the user information is
  validated as the library does, but its value is not kept.
\<close>

record URL =
  Scheme :: string
  Opaque :: string
  Host :: string
  Path :: string
  ForceQuery :: bool
  RawQuery :: string
  Fragment :: string

definition empty_URL :: URL where
  "empty_URL = \<lparr>Scheme = [], Opaque = [], Host = [], Path = [], ForceQuery = False,
     RawQuery = [], Fragment = []\<rparr>"

datatype encoding =
    encodePath | encodePathSegment | encodeHost | encodeZone
  | encodeUserPassword | encodeQueryComponent | encodeFragment

definition ishex :: "char \<Rightarrow> bool" where
  "ishex c \<longleftrightarrow> is_digit c
     \<or> (byte (CHR ''a'') \<le> byte c \<and> byte c \<le> byte (CHR ''f''))
     \<or> (byte (CHR ''A'') \<le> byte c \<and> byte c \<le> byte (CHR ''F''))"

definition unhex :: "char \<Rightarrow> nat" where
  "unhex c =
     (if is_digit c then byte c - byte (CHR ''0'')
      else if byte (CHR ''a'') \<le> byte c \<and> byte c \<le> byte (CHR ''f'')
        then byte c - byte (CHR ''a'') + 10
      else if byte (CHR ''A'') \<le> byte c \<and> byte c \<le> byte (CHR ''F'')
        then byte c - byte (CHR ''A'') + 10
      else 0)"

text \<open>\<^verbatim>\<open>shouldEscape(c, mode)\<close>: must byte \<open>c\<close> be escaped in this part of a URL?\<close>

definition reserved :: "char list" where
  "reserved = [CHR ''$'', CHR ''&'', CHR ''+'', CHR '','', CHR ''/'', CHR '':'', CHR '';'',
     CHR ''='', CHR ''?'', CHR ''@'']"

definition host_allowed :: "char list" where
  "host_allowed = [CHR ''!'', CHR ''$'', CHR ''&'', CHR 0x27, CHR ''('', CHR '')'', CHR ''*'',
     CHR ''+'', CHR '','', CHR '';'', CHR ''='', CHR '':'', CHR ''['', CHR '']'', CHR ''<'',
     CHR ''>'', CHR 0x22]"

definition shouldEscape :: "char \<Rightarrow> encoding \<Rightarrow> bool" where
  "shouldEscape c mode =
     (if is_lower c \<or> is_upper c \<or> is_digit c then False
      else if (mode = encodeHost \<or> mode = encodeZone) \<and> c \<in> set host_allowed then False
      else if c \<in> set [CHR ''-'', CHR ''_'', CHR ''.'', CHR ''~''] then False
      else if c \<in> set reserved \<and> mode = encodePath then c = CHR ''?''
      else if c \<in> set reserved \<and> mode = encodePathSegment
        then c = CHR ''/'' \<or> c = CHR '';'' \<or> c = CHR '','' \<or> c = CHR ''?''
      else if c \<in> set reserved \<and> mode = encodeUserPassword
        then c = CHR ''@'' \<or> c = CHR ''/'' \<or> c = CHR ''?'' \<or> c = CHR '':''
      else if c \<in> set reserved \<and> mode = encodeQueryComponent then True
      else if c \<in> set reserved \<and> mode = encodeFragment then False
      else if mode = encodeFragment
          \<and> c \<in> set [CHR ''!'', CHR ''('', CHR '')'', CHR ''*''] then False
      else True)"

text \<open>
  \<^verbatim>\<open>unescape(s, mode)\<close>. The library validates the whole string and then decodes
  it; the first invalid position found is the same in one pass. \<^verbatim>\<open>url.Parse\<close>
  never uses the query-component mode, so \<^verbatim>\<open>+\<close> is always kept.
\<close>

fun unescape :: "string \<Rightarrow> encoding \<Rightarrow> error + string" where
  "unescape [] mode = Inr []"
| "unescape (c # s) mode =
     (if c = CHR ''%'' then
        (case s of
           a # b # s' \<Rightarrow>
             if \<not> ishex a \<or> \<not> ishex b then Inl (EscapeError (take 3 (c # s)))
             else if mode = encodeHost \<and> unhex a < 8 \<and> [c, a, b] \<noteq> ''%25''
               then Inl (EscapeError [c, a, b])
             else if mode = encodeZone \<and> [c, a, b] \<noteq> ''%25''
                 \<and> char_of (16 * unhex a + unhex b) \<noteq> CHR '' ''
                 \<and> shouldEscape (char_of (16 * unhex a + unhex b)) encodeHost
               then Inl (EscapeError [c, a, b])
             else (case unescape s' mode of
                     Inl e \<Rightarrow> Inl e
                   | Inr t \<Rightarrow> Inr (char_of (16 * unhex a + unhex b) # t))
         | _ \<Rightarrow> Inl (EscapeError (take 3 (c # s))))
      else if (mode = encodeHost \<or> mode = encodeZone) \<and> byte c < 128
          \<and> shouldEscape c encodeHost
        then Inl (InvalidHostError [c])
      else (case unescape s mode of Inl e \<Rightarrow> Inl e | Inr t \<Rightarrow> Inr (c # t)))"

text \<open>\<^verbatim>\<open>stringContainsCTLByte\<close>: a byte below \<^verbatim>\<open>' '\<close> or the byte \<^verbatim>\<open>0x7f\<close>.\<close>

definition stringContainsCTLByte :: "string \<Rightarrow> bool" where
  "stringContainsCTLByte s \<longleftrightarrow> (\<exists>c \<in> set s. byte c < 32 \<or> byte c = 127)"

text \<open>
  \<^verbatim>\<open>getScheme(rawURL)\<close>: scheme, rest, error. \<open>seen\<close> holds the bytes before the
  current position \<open>i\<close>, so \<open>seen = []\<close> is the test \<^verbatim>\<open>i == 0\<close>.
\<close>

fun getScheme_from :: "string \<Rightarrow> string \<Rightarrow> string \<Rightarrow> string \<times> string \<times> error option" where
  "getScheme_from rawURL seen [] = ([], rawURL, None)"
| "getScheme_from rawURL seen (c # cs) =
     (if is_lower c \<or> is_upper c then getScheme_from rawURL (seen @ [c]) cs
      else if is_digit c \<or> c = CHR ''+'' \<or> c = CHR ''-'' \<or> c = CHR ''.''
        then (if seen = [] then ([], rawURL, None) else getScheme_from rawURL (seen @ [c]) cs)
      else if c = CHR '':''
        then (if seen = [] then ([], [], Some (errors_New ''missing protocol scheme''))
              else (seen, cs, None))
      else ([], rawURL, None))"

definition getScheme :: "string \<Rightarrow> string \<times> string \<times> error option" where
  "getScheme rawURL = getScheme_from rawURL [] rawURL"

text \<open>\<^verbatim>\<open>validOptionalPort\<close>: empty, or a colon followed by decimal digits only.\<close>

definition validOptionalPort :: "string \<Rightarrow> bool" where
  "validOptionalPort port =
     (case port of [] \<Rightarrow> True | c # ds \<Rightarrow> c = CHR '':'' \<and> (\<forall>b \<in> set ds. is_digit b))"

definition userinfo_allowed :: "char list" where
  "userinfo_allowed = [CHR ''-'', CHR ''.'', CHR ''_'', CHR '':'', CHR ''~'', CHR ''!'',
     CHR ''$'', CHR ''&'', CHR 0x27, CHR ''('', CHR '')'', CHR ''*'', CHR ''+'', CHR '','',
     CHR '';'', CHR ''='', CHR ''%'', CHR ''@'']"

definition validUserinfo :: "string \<Rightarrow> bool" where
  "validUserinfo s \<longleftrightarrow>
     (\<forall>r \<in> set s. is_upper r \<or> is_lower r \<or> is_digit r \<or> r \<in> set userinfo_allowed)"

text \<open>\<^verbatim>\<open>parseHost\<close>: validates an optional port and unescapes the host.\<close>

definition parseHost :: "string \<Rightarrow> error + string" where
  "parseHost host =
     (if HasPrefix host ''[''
      then (case LastIndex host (CHR '']'') of
              None \<Rightarrow> Inl (errors_New ''missing ']' in host'')
            | Some i \<Rightarrow>
                if \<not> validOptionalPort (drop (i + 1) host)
                then Inl (Errorf ''invalid port %q after host'' [Str (drop (i + 1) host)])
                else (case Index (take i host) ''%25'' of
                        Some zone \<Rightarrow>
                          (case unescape (take zone host) encodeHost of
                             Inl e \<Rightarrow> Inl e
                           | Inr host1 \<Rightarrow>
                               (case unescape (drop zone (take i host)) encodeZone of
                                  Inl e \<Rightarrow> Inl e
                                | Inr host2 \<Rightarrow>
                                    (case unescape (drop i host) encodeHost of
                                       Inl e \<Rightarrow> Inl e
                                     | Inr host3 \<Rightarrow> Inr (host1 @ host2 @ host3))))
                      | None \<Rightarrow> unescape host encodeHost))
      else (case LastIndex host (CHR '':'') of
              Some i \<Rightarrow>
                if \<not> validOptionalPort (drop i host)
                then Inl (Errorf ''invalid port %q after host'' [Str (drop i host)])
                else unescape host encodeHost
            | None \<Rightarrow> unescape host encodeHost))"

text \<open>
  \<^verbatim>\<open>parseAuthority\<close>: the host, after the user information (everything before the
  last \<^verbatim>\<open>@\<close>) has been validated and unescaped.
\<close>

definition parseAuthority :: "string \<Rightarrow> error + string" where
  "parseAuthority authority =
     (case parseHost (case LastIndex authority (CHR ''@'') of
                        None \<Rightarrow> authority | Some i \<Rightarrow> drop (i + 1) authority) of
        Inl e \<Rightarrow> Inl e
      | Inr host \<Rightarrow>
          (case LastIndex authority (CHR ''@'') of
             None \<Rightarrow> Inr host
           | Some i \<Rightarrow>
               let userinfo = take i authority in
               if \<not> validUserinfo userinfo then Inl (errors_New ''net/url: invalid userinfo'')
               else if CHR '':'' \<notin> set userinfo
                 then (case unescape userinfo encodeUserPassword of
                         Inl e \<Rightarrow> Inl e | Inr _ \<Rightarrow> Inr host)
               else (case Cut userinfo (CHR '':'') of
                       (username, password, _) \<Rightarrow>
                         (case unescape username encodeUserPassword of
                            Inl e \<Rightarrow> Inl e
                          | Inr _ \<Rightarrow>
                              (case unescape password encodeUserPassword of
                                 Inl e \<Rightarrow> Inl e | Inr _ \<Rightarrow> Inr host)))))"

text \<open>\<^verbatim>\<open>(*URL).setPath\<close> and \<^verbatim>\<open>(*URL).setFragment\<close>.\<close>

definition setPath :: "URL \<Rightarrow> string \<Rightarrow> error + URL" where
  "setPath u p = (case unescape p encodePath of Inl e \<Rightarrow> Inl e | Inr path \<Rightarrow> Inr (u\<lparr>Path := path\<rparr>))"

definition setFragment :: "URL \<Rightarrow> string \<Rightarrow> error + URL" where
  "setFragment u f =
     (case unescape f encodeFragment of Inl e \<Rightarrow> Inl e | Inr frag \<Rightarrow> Inr (u\<lparr>Fragment := frag\<rparr>))"

text \<open>
  \<^verbatim>\<open>parse(rawURL, viaRequest)\<close>: scheme, query, authority and path, in that order.
\<close>

definition parse :: "string \<Rightarrow> bool \<Rightarrow> error + URL" where
  "parse rawURL viaRequest =
     (if stringContainsCTLByte rawURL
        then Inl (errors_New ''net/url: invalid control character in URL'')
      else if rawURL = [] \<and> viaRequest then Inl (errors_New ''empty url'')
      else if rawURL = ''*'' then Inr (empty_URL\<lparr>Path := ''*''\<rparr>)
      else
        (case getScheme rawURL of
           (_, _, Some e) \<Rightarrow> Inl e
         | (scheme, rest0, None) \<Rightarrow>
             let u1 = empty_URL\<lparr>Scheme := ToLower scheme\<rparr>;
                 cut = (if HasSuffix rest0 ''?'' \<and> count_list rest0 (CHR ''?'') = 1
                        then (butlast rest0, u1\<lparr>ForceQuery := True\<rparr>)
                        else (case Cut rest0 (CHR ''?'') of
                                (r, q, _) \<Rightarrow> (r, u1\<lparr>RawQuery := q\<rparr>)));
                 rest = fst cut;
                 u2 = snd cut
             in
               if \<not> HasPrefix rest ''/'' \<and> Scheme u2 \<noteq> [] then Inr (u2\<lparr>Opaque := rest\<rparr>)
               else if \<not> HasPrefix rest ''/'' \<and> viaRequest
                 then Inl (errors_New ''invalid URI for request'')
               else if \<not> HasPrefix rest ''/'' \<and> CHR '':'' \<in> set (fst (Cut rest (CHR ''/'')))
                 then Inl (errors_New ''first path segment in URL cannot contain colon'')
               else if (Scheme u2 \<noteq> [] \<or> \<not> viaRequest \<and> \<not> HasPrefix rest ''///'')
                   \<and> HasPrefix rest ''//''
                 then
                   (let authority0 = drop 2 rest;
                        authority = (case Index authority0 ''/'' of
                                       Some i \<Rightarrow> take i authority0 | None \<Rightarrow> authority0);
                        rest' = (case Index authority0 ''/'' of
                                   Some i \<Rightarrow> drop i authority0 | None \<Rightarrow> [])
                    in case parseAuthority authority of
                         Inl e \<Rightarrow> Inl e
                       | Inr host \<Rightarrow> setPath (u2\<lparr>Host := host\<rparr>) rest')
               else setPath u2 rest))"

text \<open>\<^verbatim>\<open>url.Parse(rawURL)\<close>: the fragment is cut off first and set last.\<close>

definition url_Parse :: "string \<Rightarrow> error + URL" where
  "url_Parse rawURL =
     (case Cut rawURL (CHR ''#'') of
        (u, frag, _) \<Rightarrow>
          (case parse u False of
             Inl e \<Rightarrow> Inl (URLError ''parse'' u e)
           | Inr url \<Rightarrow>
               if frag = [] then Inr url
               else (case setFragment url frag of
                       Inl e \<Rightarrow> Inl (URLError ''parse'' rawURL e)
                     | Inr url' \<Rightarrow> Inr url')))"

subsection \<open>Package \<^verbatim>\<open>path\<close>: the last element of a path\<close>

text \<open>
  \<^verbatim>\<open>path.Base(path)\<close>: \<^verbatim>\<open>"."\<close> for the empty path; otherwise trailing slashes are
  stripped, everything up to the last remaining slash is dropped, and \<^verbatim>\<open>"/"\<close> is
  returned when nothing is left.
\<close>

definition strip_trailing_slashes :: "string \<Rightarrow> string" where
  "strip_trailing_slashes path = rev (dropWhile (\<lambda>c. c = CHR ''/'') (rev path))"

definition path_Base :: "string \<Rightarrow> string" where
  "path_Base path =
     (if path = [] then ''.''
      else
        let p1 = strip_trailing_slashes path;
            p2 = (case LastIndex p1 (CHR ''/'') of Some i \<Rightarrow> drop (i + 1) p1 | None \<Rightarrow> p1)
        in if p2 = [] then ''/'' else p2)"

subsection \<open>The URL parser of the download manager\<close>

text \<open>
  \<^verbatim>\<open>var httpRe = regexp.MustCompile("^https?://.*[^/]$")\<close>. Each piece of the pattern
  is a matcher that takes the matcher of the rest of the pattern as its continuation.
  Go's engine matches code points, not bytes: \<^verbatim>\<open>.\<close> is any code point but the line
  feed and \<^verbatim>\<open>[^/]\<close> any code point but the slash (it does match a line feed). Both
  excluded characters are ASCII, every byte of a longer UTF-8 sequence is at least
  \<open>0x80\<close>, and an invalid byte counts as one code point, so matching byte by byte
  accepts the same strings.
\<close>

definition lit :: "string \<Rightarrow> (string \<Rightarrow> bool) \<Rightarrow> string \<Rightarrow> bool" where
  "lit p k s \<longleftrightarrow> HasPrefix s p \<and> k (drop (length p) s)"

definition opt_char :: "char \<Rightarrow> (string \<Rightarrow> bool) \<Rightarrow> string \<Rightarrow> bool" where
  "opt_char c k s \<longleftrightarrow> (case s of x # xs \<Rightarrow> x = c \<and> k xs | [] \<Rightarrow> False) \<or> k s"

fun dot_star :: "(string \<Rightarrow> bool) \<Rightarrow> string \<Rightarrow> bool" where
  "dot_star k [] = k []"
| "dot_star k (c # cs) = (k (c # cs) \<or> (c \<noteq> CHR 0x0A \<and> dot_star k cs))"

definition not_char :: "char \<Rightarrow> (string \<Rightarrow> bool) \<Rightarrow> string \<Rightarrow> bool" where
  "not_char c k s \<longleftrightarrow> (case s of x # xs \<Rightarrow> x \<noteq> c \<and> k xs | [] \<Rightarrow> False)"

definition end_of_text :: "string \<Rightarrow> bool" where
  "end_of_text s \<longleftrightarrow> s = []"

definition httpRe_MatchString :: "string \<Rightarrow> bool" where
  "httpRe_MatchString s =
     lit ''http'' (opt_char (CHR ''s'') (lit ''://''
       (dot_star (not_char (CHR ''/'') end_of_text)))) s"

text \<open>\<^verbatim>\<open>basename\<close> returns the last element of the path in the URL.\<close>

definition basename :: "string \<Rightarrow> error + string" where
  "basename uri =
     (if \<not> httpRe_MatchString uri then Inl (Errorf ''invalid uri: %s'' [Str uri])
      else
        (case url_Parse uri of
           Inl e \<Rightarrow> Inl e
         | Inr u \<Rightarrow>
             let bp = path_Base (Path u) in
             if length bp < 2 then Inl (Errorf ''not a file: %s'' [Str bp])
             else Inr bp))"

text \<open>
  \<^verbatim>\<open>request\<close> is the download request. Its fields \<^verbatim>\<open>filename\<close> and \<^verbatim>\<open>url\<close>
  carry the prefix \<open>req_\<close>, those of \<^verbatim>\<open>result\<close> below the prefix \<open>res_\<close>: both
  structs have a field \<^verbatim>\<open>filename\<close>.
\<close>

record request =
  req_filename :: string
  req_url :: string

text \<open>
  \<^verbatim>\<open>parseURLs\<close> parses the provided URLs and returns a slice of requests, with the
  error. \<open>reqs\<close> is the slice built so far; Go's \<^verbatim>\<open>nil\<close> slice is the empty list.
\<close>

fun parseURLs_from :: "request list \<Rightarrow> string list \<Rightarrow> request list \<times> error option" where
  "parseURLs_from reqs [] = (reqs, None)"
| "parseURLs_from reqs (uri # urls) =
     (if length uri = 0 then parseURLs_from reqs urls
      else
        (case basename uri of
           Inl e \<Rightarrow> ([], Some e)
         | Inr filename \<Rightarrow>
             parseURLs_from (reqs @ [\<lparr>req_filename = filename, req_url = uri\<rparr>]) urls))"

definition parseURLs :: "string list \<Rightarrow> request list \<times> error option" where
  "parseURLs urls = parseURLs_from [] urls"

subsection \<open>Collaborators: context, storage, network\<close>

text \<open>
  A \<^verbatim>\<open>context.Context\<close> is seen through \<^verbatim>\<open>ctx.Err()\<close>: \<open>None\<close> while the context is
  not done (\<^verbatim>\<open>ctx.Done()\<close> blocks), \<open>Some e\<close> once it is, with \<open>e\<close> one of the two
  sentinels. The state of the context is fixed for the run that is modelled.
\<close>

type_synonym ctx = "error option"

text \<open>
  Modelled from the spec: the storage collaborator \<^verbatim>\<open>fsadapter.FS\<close>, whose package is
  not among the sources. It creates a file at a logical path and hands out a writable
  handle. \<open>files\<close> maps each path that exists to its contents, \<open>create_err\<close> says
  for which paths \<^verbatim>\<open>Create\<close> fails, and \<open>close_err\<close> is what closing the adapter
  returns. A handle is the path it was created at; a write to it is taken to succeed.
\<close>

record FS =
  files :: "string \<rightharpoonup> string"
  create_err :: "string \<Rightarrow> error option"
  close_err :: "error option"

definition Create :: "FS \<Rightarrow> string \<Rightarrow> error + FS" where
  "Create fsa fp =
     (case create_err fsa fp of
        Some e \<Rightarrow> Inl e
      | None \<Rightarrow> Inr (fsa\<lparr>files := (files fsa)(fp \<mapsto> [])\<rparr>))"

text \<open>
  \<^verbatim>\<open>fsadapter.FSCloser\<close>: either the manager's own \<^verbatim>\<open>nopcloser\<close> wrapper around a
  caller's file system, or an adapter that \<^verbatim>\<open>fsadapter.New\<close> opened.
\<close>

datatype FSCloser = nopcloser FS | adapter FS

text \<open>
  An HTTP response: status code, status text, the bytes the body delivers, and the
  error that ends the body (\<open>None\<close> for a clean end of file).
\<close>

record response =
  StatusCode :: int
  Status :: string
  Body :: string
  BodyErr :: "error option"

text \<open>
  What the program takes from its platform: \<^verbatim>\<open>http.DefaultClient.Do\<close> (the answer
  to a GET of a URL under a context), \<^verbatim>\<open>filepath.Join\<close> (specific to the operating
  system) and \<^verbatim>\<open>fsadapter.New\<close>.
\<close>

record platform =
  Do :: "ctx \<Rightarrow> string \<Rightarrow> error + response"
  Join :: "string \<Rightarrow> string \<Rightarrow> string"
  fsadapter_New :: "string \<Rightarrow> error + FS"

text \<open>\<^verbatim>\<open>io.Copy(wc, resp.Body)\<close>: the body's bytes are appended to the file.\<close>

definition io_Copy :: "FS \<Rightarrow> string \<Rightarrow> response \<Rightarrow> error option \<times> FS" where
  "io_Copy fsa fp resp =
     (BodyErr resp,
      fsa\<lparr>files := (files fsa)(fp \<mapsto> (case files fsa fp of Some d \<Rightarrow> d | None \<Rightarrow> []) @ Body resp)\<rparr>)"

subsection \<open>Fetching one file\<close>

text \<open>
  \<^verbatim>\<open>get\<close> downloads one file from the uri into the dir/filename within the file
  system wrapped with the fsa. It returns its error and the file system as it leaves
  it. \<^verbatim>\<open>http.NewRequestWithContext\<close> fails exactly when \<^verbatim>\<open>url.Parse\<close> rejects the
  uri (the method is the constant GET and the context is not nil). The two deferred
  \<^verbatim>\<open>Close\<close> calls release the body and the handle on every path; their errors are
  dropped and they change nothing that is kept here.
\<close>

definition get :: "platform \<Rightarrow> ctx \<Rightarrow> FS \<Rightarrow> string \<Rightarrow> string \<Rightarrow> string \<Rightarrow> error option \<times> FS" where
  "get pf c fsa dir filename uri =
     (case url_Parse uri of
        Inl e \<Rightarrow> (Some e, fsa)
      | Inr _ \<Rightarrow>
          (case Do pf c uri of
             Inl e \<Rightarrow> (Some e, fsa)
           | Inr resp \<Rightarrow>
               let fp = Join pf dir filename in
               (case Create fsa fp of
                  Inl e \<Rightarrow>
                    (Some (Wrapf ''error creating the file at path %q: %w'' [Str fp] e), fsa)
                | Inr fsa' \<Rightarrow>
                    if StatusCode resp \<noteq> 200
                    then (Some (Errorf ''invalid server status code: %d (%s)''
                                  [Num (StatusCode resp), Str (Status resp)]), fsa')
                    else io_Copy fsa' fp resp)))"

subsection \<open>The manager and its options\<close>

type_synonym fetchFunc =
  "platform \<Rightarrow> ctx \<Rightarrow> FS \<Rightarrow> string \<Rightarrow> string \<Rightarrow> string \<Rightarrow> error option \<times> FS"

text \<open>
  \<^verbatim>\<open>Manager\<close> is the download manager. \<^verbatim>\<open>numWorkers\<close> is a Go \<^verbatim>\<open>int\<close>; it is only
  compared and assigned, never computed with, so it is an \<^typ>\<open>int\<close> here.
\<close>

record Manager =
  numWorkers :: int
  fetchFn :: fetchFunc
  ignoreHTTPerr :: bool
  fsc :: FSCloser
  isClosed :: bool

definition defNumWorkers :: int where
  "defNumWorkers = 12"

text \<open>\<^verbatim>\<open>Option\<close> is the download manager option: a function applied to the manager.\<close>

type_synonym Option = "Manager \<Rightarrow> Manager"

definition NumWorkers :: "int \<Rightarrow> Option" where
  "NumWorkers n = (\<lambda>m. m\<lparr>numWorkers := (if n < 1 then defNumWorkers else n)\<rparr>)"

definition IgnoreHTTPErrors :: "bool \<Rightarrow> Option" where
  "IgnoreHTTPErrors isEnabled = (\<lambda>m. m\<lparr>ignoreHTTPerr := isEnabled\<rparr>)"

definition newMgr :: "FSCloser \<Rightarrow> Option list \<Rightarrow> Manager" where
  "newMgr c opts =
     fold (\<lambda>opt m. opt m) opts
       \<lparr>numWorkers = defNumWorkers, fetchFn = get, ignoreHTTPerr = True, fsc = c,
        isClosed = False\<rparr>"

definition New :: "FS \<Rightarrow> Option list \<Rightarrow> Manager" where
  "New fsa opts = newMgr (nopcloser fsa) opts"

definition NewWithPath :: "platform \<Rightarrow> string \<Rightarrow> Option list \<Rightarrow> error + Manager" where
  "NewWithPath pf zipOrDir opts =
     (case fsadapter_New pf zipOrDir of
        Inl e \<Rightarrow> Inl e
      | Inr fsa \<Rightarrow> Inr ((newMgr (adapter fsa) opts)\<lparr>isClosed := False\<rparr>))"

text \<open>\<^verbatim>\<open>Close\<close> closes the underlying file system adapter, if necessary.\<close>

definition Close :: "Manager \<Rightarrow> Manager \<times> error option" where
  "Close m =
     (case fsc m of
        nopcloser _ \<Rightarrow> (m, None)
      | adapter fsa \<Rightarrow>
          if isClosed m then (m, None) else (m\<lparr>isClosed := True\<rparr>, close_err fsa))"

subsection \<open>The worker\<close>

record result =
  res_filename :: string
  res_err :: "error option"

text \<open>
  The worker's \<^verbatim>\<open>select\<close> has two cases. \<^verbatim>\<open>case <-ctx.Done()\<close> can proceed when the
  context is done; the receive from \<^verbatim>\<open>requestC\<close> can proceed when a sender offers a
  request or the channel is closed. When both can proceed Go chooses one of them at
  random: \<open>pick i\<close> is that choice in the \<open>i\<close>-th round of the loop.
\<close>

datatype select_case = case_Done | case_Recv

text \<open>
  How a run of the worker ends: it returns, or it blocks for ever, either in a send on
  \<^verbatim>\<open>resultC\<close> (with the result it could not hand over) or in its \<^verbatim>\<open>select\<close>.
\<close>

datatype ending = Returned | Blocked_send result | Blocked_select

record wstate =
  posted :: "result list"
  fetched :: "request list"
  storage :: FS

text \<open>A send on \<^verbatim>\<open>resultC\<close> that a receiver has taken.\<close>

definition post :: "result \<Rightarrow> wstate \<Rightarrow> wstate" where
  "post r st = st\<lparr>posted := posted st @ [r]\<rparr>"

text \<open>
  \<^verbatim>\<open>worker\<close> downloads files received from \<^verbatim>\<open>requestC\<close> and sends the result of
  each to \<^verbatim>\<open>resultC\<close>. The request channel is the list of requests its sender still
  offers, in order, and the flag \<open>closed\<close>: whether the sender closes the channel
  after them. \<^verbatim>\<open>resultC\<close> is not buffered, so a send goes through only when a
  receiver takes the result: \<open>takes\<close> is the number of sends of this worker that a
  receiver will still take. The loop of \<^verbatim>\<open>Download\<close> stops receiving when it returns,
  so for a worker whose next result is among those never received \<open>takes\<close> is 0; a
  receiver that reads until the channel is closed, as in \<^verbatim>\<open>Test_worker\<close>, is any
  number above the length of the queue. \<open>posted st\<close> are the results handed over so
  far, \<open>fetched st\<close> the requests \<^verbatim>\<open>fetchFn\<close> was called for and \<open>storage st\<close> the
  file system behind \<^verbatim>\<open>m.fsc\<close>. The run yields how it ends, the last state and
  the requests the worker never received.
\<close>

fun worker :: "platform \<Rightarrow> Manager \<Rightarrow> ctx \<Rightarrow> string \<Rightarrow> (nat \<Rightarrow> select_case) \<Rightarrow> nat \<Rightarrow> bool \<Rightarrow>
    request list \<Rightarrow> nat \<Rightarrow> wstate \<Rightarrow> ending \<times> wstate \<times> request list" where
  "worker pf m c dir pick i closed [] takes st =
     (case c of
        Some e \<Rightarrow>
          if closed \<and> pick i = case_Recv then (Returned, st, [])
          else if takes = 0
            then (Blocked_send \<lparr>res_filename = [], res_err = Some e\<rparr>, st, [])
          else (Returned, post \<lparr>res_filename = [], res_err = Some e\<rparr> st, [])
      | None \<Rightarrow> if closed then (Returned, st, []) else (Blocked_select, st, []))"
| "worker pf m c dir pick i closed (req # requestC) takes st =
     (if c \<noteq> None \<and> pick i = case_Done
      then (if takes = 0
            then (Blocked_send \<lparr>res_filename = [], res_err = c\<rparr>, st, req # requestC)
            else (Returned, post \<lparr>res_filename = [], res_err = c\<rparr> st, req # requestC))
      else
        (case fetchFn m pf c (storage st) dir (req_filename req) (req_url req) of
           (e, fsa') \<Rightarrow>
             if takes = 0
             then (Blocked_send \<lparr>res_filename = req_filename req, res_err = e\<rparr>,
                   st\<lparr>fetched := fetched st @ [req], storage := fsa'\<rparr>, requestC)
             else worker pf m c dir pick (i + 1) closed requestC (takes - 1)
                    (post \<lparr>res_filename = req_filename req, res_err = e\<rparr>
                       (st\<lparr>fetched := fetched st @ [req], storage := fsa'\<rparr>))))"

subsection \<open>Download: the result processor\<close>

text \<open>A line handed to the logger: the format of \<^verbatim>\<open>lg.Printf\<close> and its operands.\<close>

datatype logline = Printf string "arg list"

text \<open>
  The block \<^verbatim>\<open>if res.err != nil { ... }\<close> of the result loop: either \<^verbatim>\<open>Download\<close>
  returns an error (\<open>Inl\<close>), or the loop goes on with the lines logged (\<open>Inr\<close>).
\<close>

definition check_err :: "Manager \<Rightarrow> result \<Rightarrow> error + logline list" where
  "check_err m res =
     (case res_err res of
        None \<Rightarrow> Inr []
      | Some e \<Rightarrow>
          if errors_Is e Canceled then Inl e
          else if \<not> ignoreHTTPerr m
            then Inl (Wrapf ''failed: %q: %w'' [Str (res_filename res)] e)
          else Inr [Printf ''failed: %q: %s'' [Str (res_filename res), Err e]])"

text \<open>
  The loop \<^verbatim>\<open>for res := range resultC\<close>. The channel is the list of results that
  arrive on it, in order, before it is closed. The loop's state is \<open>count\<close> and the
  lines logged so far; it returns \<^verbatim>\<open>Download\<close>'s error, the log, and the results
  it never received.
\<close>

fun drain :: "Manager \<Rightarrow> int \<Rightarrow> int \<Rightarrow> logline list \<Rightarrow> result list \<Rightarrow>
    error option \<times> logline list \<times> result list" where
  "drain m tot count lg [] = (None, lg, [])"
| "drain m tot count lg (res # resultC) =
     (case check_err m res of
        Inl e \<Rightarrow> (Some e, lg, resultC)
      | Inr failed \<Rightarrow>
          drain m tot (count + 1)
            (lg @ failed @
               [Printf ''downloaded % 5d/%d %q'' [Num (count + 1), Num tot, Str (res_filename res)]])
            resultC)"

subsection \<open>Download\<close>

text \<open>
  What a call of \<^verbatim>\<open>Download\<close> leaves behind: the error returned, the lines logged,
  whether the pipeline was started (with how many workers and which requests), and the
  results that were never received.
\<close>

record outcome =
  ret :: "error option"
  logged :: "logline list"
  started :: "(int \<times> request list) option"
  undrained :: "result list"

text \<open>
  The generator, the workers and the sentinel run concurrently; the result processor
  sees them only through \<^verbatim>\<open>resultC\<close>. \<open>pool\<close> stands for them: given the context,
  the manager, the directory and the requests, it is the sequence of results that
  arrives on \<^verbatim>\<open>resultC\<close> before the sentinel closes it.
\<close>

type_synonym pool = "ctx \<Rightarrow> Manager \<Rightarrow> string \<Rightarrow> request list \<Rightarrow> result list"

text \<open>
  \<^verbatim>\<open>Download\<close> downloads the files and saves them to the dir directory within the
  file system adapter. It returns the manager, which it may have changed, and the
  outcome.
\<close>

definition Download :: "pool \<Rightarrow> Manager \<Rightarrow> ctx \<Rightarrow> string \<Rightarrow> string list \<Rightarrow> Manager \<times> outcome" where
  "Download pool m c dir urls =
     (if isClosed m
      then (m, \<lparr>ret = Some (errors_New ''manager is closed''), logged = [], started = None,
                undrained = []\<rparr>)
      else
        let m' = (if numWorkers m = 0 then m\<lparr>numWorkers := defNumWorkers\<rparr> else m) in
        (case parseURLs urls of
           (_, Some e) \<Rightarrow>
             (m', \<lparr>ret = Some (Wrapf ''error parsing urls: %w'' [] e), logged = [],
                   started = None, undrained = []\<rparr>)
         | (reqs, None) \<Rightarrow>
             (case drain m' (int (length urls)) 0 [] (pool c m' dir reqs) of
                (r, lg, rest) \<Rightarrow>
                  (m', \<lparr>ret = r, logged = lg, started = Some (numWorkers m', reqs),
                        undrained = rest\<rparr>))))"

text \<open>
  \<^verbatim>\<open>DownloadToPath\<close> downloads urls into a subdirectory subdir of a ZIP file or
  directory specified by zipOrDir. The deferred \<^verbatim>\<open>m.Close()\<close> runs after
  \<^verbatim>\<open>Download\<close>; its error is dropped.
\<close>

definition DownloadToPath :: "platform \<Rightarrow> pool \<Rightarrow> ctx \<Rightarrow> string \<Rightarrow> string \<Rightarrow> string list \<Rightarrow>
    Option list \<Rightarrow> outcome" where
  "DownloadToPath pf pool c zipOrDir subdir urls opts =
     (case NewWithPath pf zipOrDir opts of
        Inl e \<Rightarrow> \<lparr>ret = None, logged = [], started = None, undrained = []\<rparr>
      | Inr m \<Rightarrow>
          (case Download pool m c subdir urls of
             (m', out) \<Rightarrow> (case Close m' of (_, _) \<Rightarrow> out)))"

text \<open>\<^verbatim>\<open>Download\<close>, the package function: a manager over \<open>fsa\<close>, then its method.\<close>

definition Download_fsa :: "pool \<Rightarrow> ctx \<Rightarrow> FS \<Rightarrow> string \<Rightarrow> string list \<Rightarrow> Option list \<Rightarrow>
    Manager \<times> outcome" where
  "Download_fsa pool c fsa subdir urls opts = Download pool (New fsa opts) c subdir urls"

subsection \<open>Notions used in the statements\<close>

text \<open>
  The substring after the last slash of a path (the whole path when it has no slash).
\<close>

definition last_segment :: "string \<Rightarrow> string" where
  "last_segment p = rev (takeWhile (\<lambda>c. c \<noteq> CHR ''/'') (rev p))"

text \<open>A result that carries no error, or an error that is not a cancellation.\<close>

definition no_cancellation :: "result \<Rightarrow> bool" where
  "no_cancellation r = (case res_err r of None \<Rightarrow> True | Some e \<Rightarrow> \<not> errors_Is e Canceled)"

subsection \<open>Fixtures of the package's tests\<close>

text \<open>\<^verbatim>\<open>emptyFetchFn\<close> of \<^verbatim>\<open>asyncdl_test.go\<close>: a fetch that always succeeds.\<close>

definition emptyFetchFn :: fetchFunc where
  "emptyFetchFn pf c fsa dir name uri = (None, fsa)"

text \<open>
  An empty directory in which every file can be created (\<^verbatim>\<open>t.TempDir()\<close>), and one
  in which none can.
\<close>

definition temp_dir :: FS where
  "temp_dir = \<lparr>files = Map.empty, create_err = (\<lambda>fp. None), close_err = None\<rparr>"

definition readonly_dir :: FS where
  "readonly_dir =
     \<lparr>files = Map.empty, create_err = (\<lambda>fp. Some (errors_New ''permission denied'')),
      close_err = None\<rparr>"

text \<open>
  The test server of \<^verbatim>\<open>Test_get\<close> that answers every request with status 404 and
  an empty body; paths are joined with a slash; the adapter cannot be opened on the
  empty path.
\<close>

definition not_found :: response where
  "not_found = \<lparr>StatusCode = 404, Status = ''404 Not Found'', Body = [], BodyErr = None\<rparr>"

definition test_server :: platform where
  "test_server =
     \<lparr>Do = (\<lambda>c uri. Inr not_found), Join = (\<lambda>dir name. dir @ ''/'' @ name),
      fsadapter_New = (\<lambda>p. if p = [] then Inl (errors_New ''empty path'') else Inr temp_dir)\<rparr>"

text \<open>
  The request of \<^verbatim>\<open>Test_worker\<close>, the URLs of \<^verbatim>\<open>Test_parseURLs\<close>, the result of
  a fetch that failed with the error of \<^verbatim>\<open>errorFetchFn\<close>, the result a worker posts
  on cancellation, and a worker that has done nothing yet.
\<close>

definition test_request :: request where
  "test_request = \<lparr>req_filename = ''test'', req_url = ''passed''\<rparr>"

definition test_urls :: "string list" where
  "test_urls = [''https://example.com/foo.txt'', ''https://localhost/bar.jpg'']"

definition failed_result :: result where
  "failed_result =
     \<lparr>res_filename = ''foo.txt'', res_err = Some (errors_New ''your shattered hopes'')\<rparr>"

definition cancelled_result :: result where
  "cancelled_result = \<lparr>res_filename = [], res_err = Some Canceled\<rparr>"

definition fresh :: wstate where
  "fresh = \<lparr>posted = [], fetched = [], storage = temp_dir\<rparr>"

section \<open>Properties\<close>

subsection \<open>The shape test and the last path element\<close>

lemma lit_iff: "lit p k s \<longleftrightarrow> (\<exists>r. s = p @ r \<and> k r)"
  unfolding lit_def HasPrefix_def
  by (metis append_eq_conv_conj)

lemma dot_star_not_char:
  "dot_star (not_char c end_of_text) s \<longleftrightarrow>
     s \<noteq> [] \<and> last s \<noteq> c \<and> CHR 0x0A \<notin> set (butlast s)"
proof (induction s)
  case Nil
  show ?case by (simp add: not_char_def)
next
  case (Cons x xs)
  have k: "not_char c end_of_text (x # xs) \<longleftrightarrow> x \<noteq> c \<and> xs = []"
    by (simp add: not_char_def end_of_text_def)
  show ?case
    unfolding dot_star.simps k using Cons.IH by (cases xs) auto
qed

text \<open>
  The pattern accepts exactly the strings that start with \<^verbatim>\<open>http://\<close> or
  \<^verbatim>\<open>https://\<close> and go on with at least one more byte, the last byte of the string
  not being a slash and no byte before the last being a line feed.
\<close>

lemma httpRe_iff:
  "httpRe_MatchString s \<longleftrightarrow>
     (\<exists>rest. (s = ''http://'' @ rest \<or> s = ''https://'' @ rest) \<and> rest \<noteq> []
        \<and> last rest \<noteq> CHR ''/'' \<and> CHR 0x0A \<notin> set (butlast rest))"
proof -
  have opt: "opt_char (CHR ''s'') k t \<longleftrightarrow> (\<exists>r. t = ''s'' @ r \<and> k r) \<or> k t" for k t
    by (cases t) (auto simp: opt_char_def)
  show ?thesis
    unfolding httpRe_MatchString_def lit_iff opt dot_star_not_char
    by auto
qed

lemma LastIndex_None: "LastIndex p c = None \<longleftrightarrow> c \<notin> set p"
  by (simp add: LastIndex_def)

lemma LastIndex_drop:
  assumes "LastIndex p c = Some i"
  shows "drop (i + 1) p = rev (takeWhile (\<lambda>x. x \<noteq> c) (rev p))"
proof -
  let ?t = "takeWhile (\<lambda>x. x \<noteq> c) (rev p)"
  let ?d = "dropWhile (\<lambda>x. x \<noteq> c) (rev p)"
  from assms have mem: "c \<in> set p" and i: "i = length p - 1 - length ?t"
    by (auto simp: LastIndex_def split: if_splits)
  have "?d \<noteq> []"
    using mem by (simp add: dropWhile_eq_Nil_conv)
  then have pos: "0 < length ?d" by simp
  have total: "length ?t + length ?d = length p"
    by (metis length_append length_rev takeWhile_dropWhile_id)
  have "rev p = ?t @ ?d" by simp
  then have p: "p = rev ?d @ rev ?t"
    by (metis rev_append rev_rev_ident)
  have "length (rev ?d) = i + 1"
    using pos total i unfolding length_rev by arith
  with p show ?thesis
    by (metis append_eq_conv_conj)
qed

lemma last_segment_no_slash:
  assumes "CHR ''/'' \<notin> set p"
  shows "last_segment p = p"
proof -
  have "takeWhile (\<lambda>c. c \<noteq> CHR ''/'') (rev p) = rev p"
    using assms by (auto simp: takeWhile_eq_all_conv)
  then show ?thesis by (simp only: last_segment_def rev_rev_ident)
qed

text \<open>
  \<^verbatim>\<open>path.Base\<close> is the last segment of the path without its trailing slashes,
  unless that is empty.
\<close>

lemma path_Base_eq:
  "path_Base p =
     (if p = [] then ''.''
      else if last_segment (strip_trailing_slashes p) = [] then ''/''
      else last_segment (strip_trailing_slashes p))"
proof -
  have seg: "(case LastIndex q (CHR ''/'') of Some i \<Rightarrow> drop (i + 1) q | None \<Rightarrow> q)
      = last_segment q" for q
  proof (cases "LastIndex q (CHR ''/'')")
    case None
    then have "CHR ''/'' \<notin> set q" by (simp add: LastIndex_None)
    then have "last_segment q = q" by (rule last_segment_no_slash)
    with None show ?thesis by simp
  next
    case (Some i)
    from LastIndex_drop[OF Some] have "drop (i + 1) q = last_segment q"
      by (simp only: last_segment_def)
    with Some show ?thesis by (simp del: One_nat_def)
  qed
  show ?thesis unfolding path_Base_def Let_def seg by simp
qed

lemma path_Base_long:
  "2 \<le> length (path_Base p) \<longleftrightarrow> 2 \<le> length (last_segment (strip_trailing_slashes p))"
  "2 \<le> length (path_Base p) \<Longrightarrow> path_Base p = last_segment (strip_trailing_slashes p)"
  by (auto simp: path_Base_eq last_segment_def strip_trailing_slashes_def split: if_splits)

subsection \<open>The URL parser\<close>

text \<open>
  Claim C3, as amended. For every non-empty string \<open>s\<close>, \<^verbatim>\<open>parseURLs\<close> of the list
  that holds only \<open>s\<close> accepts it exactly when three things hold. First, \<open>s\<close> is
  \<^verbatim>\<open>http://\<close> or \<^verbatim>\<open>https://\<close> followed by a non-empty rest, the last byte of the
  whole string is not a slash and no byte of the rest before the last is a line feed:
  the test looks at the string, not at the path component of the URL. Second,
  \<^verbatim>\<open>url.Parse\<close> accepts \<open>s\<close>. Third, the last segment of the parsed path, taken after
  its trailing slashes are stripped, has length at least 2. The request then has that
  segment as its destination name and \<open>s\<close> as its URL. Otherwise the call fails with
  no requests: with \<^verbatim>\<open>invalid uri\<close> carrying \<open>s\<close> when the first test fails, with
  the error of \<^verbatim>\<open>url.Parse\<close> when the second does, and with \<^verbatim>\<open>not a file\<close>
  carrying \<^verbatim>\<open>path.Base\<close> of the path when the third does.
\<close>

theorem parseURLs_single:
  assumes "s \<noteq> []"
  shows "parseURLs [s] =
     (if (\<exists>rest. (s = ''http://'' @ rest \<or> s = ''https://'' @ rest) \<and> rest \<noteq> []
            \<and> last rest \<noteq> CHR ''/'' \<and> CHR 0x0A \<notin> set (butlast rest))
      then (case url_Parse s of
              Inl e \<Rightarrow> ([], Some e)
            | Inr u \<Rightarrow>
                if 2 \<le> length (last_segment (strip_trailing_slashes (Path u)))
                then ([\<lparr>req_filename = last_segment (strip_trailing_slashes (Path u)),
                        req_url = s\<rparr>], None)
                else ([], Some (Errorf ''not a file: %s'' [Str (path_Base (Path u))])))
      else ([], Some (Errorf ''invalid uri: %s'' [Str s])))"
proof -
  have shape: "(\<exists>rest. (s = ''http://'' @ rest \<or> s = ''https://'' @ rest) \<and> rest \<noteq> []
            \<and> last rest \<noteq> CHR ''/'' \<and> CHR 0x0A \<notin> set (butlast rest)) = httpRe_MatchString s"
    by (rule httpRe_iff[symmetric])
  have one: "parseURLs [s] = (case basename s of Inl e \<Rightarrow> ([], Some e)
      | Inr n \<Rightarrow> ([\<lparr>req_filename = n, req_url = s\<rparr>], None))"
    using assms by (simp add: parseURLs_def split: sum.splits)
  show ?thesis
  proof (cases "httpRe_MatchString s")
    case False
    then show ?thesis unfolding shape one by (simp add: basename_def)
  next
    case True
    show ?thesis
    proof (cases "url_Parse s")
      case (Inl e)
      with True show ?thesis unfolding shape one by (simp add: basename_def)
    next
      case (Inr u)
      show ?thesis
      proof (cases "2 \<le> length (path_Base (Path u))")
        case long: True
        with True Inr path_Base_long[of "Path u"] show ?thesis
          unfolding shape one by (simp add: basename_def Let_def)
      next
        case short: False
        with True Inr path_Base_long(1)[of "Path u"] show ?thesis
          unfolding shape one by (simp add: basename_def Let_def)
      qed
    qed
  qed
qed

text \<open>The first URL of \<^verbatim>\<open>Test_basename\<close> is accepted under the name \<^verbatim>\<open>baz.txt\<close>.\<close>

theorem parseURLs_single_witness:
  "''https://foo.bar/baz.txt'' \<noteq> []
   \<and> parseURLs [''https://foo.bar/baz.txt'']
       = ([\<lparr>req_filename = ''baz.txt'', req_url = ''https://foo.bar/baz.txt''\<rparr>], None)"
proof -
  have p: "url_Parse ''https://foo.bar/baz.txt''
      = Inr \<lparr>Scheme = ''https'', Opaque = [], Host = ''foo.bar'', Path = ''/baz.txt'',
             ForceQuery = False, RawQuery = [], Fragment = []\<rparr>"
    by code_simp
  have seg: "last_segment (strip_trailing_slashes ''/baz.txt'') = ''baz.txt''"
    by code_simp
  show ?thesis
    using parseURLs_single[of "''https://foo.bar/baz.txt''"]
    by (simp add: p seg)
qed

text \<open>
  Claim C3 as stated fails: the URL \<^verbatim>\<open>http://h/dir/?x\<close> is accepted under the name
  \<^verbatim>\<open>dir\<close>, although its path component \<^verbatim>\<open>/dir/\<close> ends in a slash and nothing
  follows the last slash of that path.
\<close>

theorem parseURLs_accepts_directory_url:
  "parseURLs [''http://h/dir/?x'']
     = ([\<lparr>req_filename = ''dir'', req_url = ''http://h/dir/?x''\<rparr>], None)
   \<and> map_sum id Path (url_Parse ''http://h/dir/?x'') = Inr ''/dir/''
   \<and> last ''/dir/'' = CHR ''/''
   \<and> last_segment ''/dir/'' = []"
  by code_simp

lemma parseURLs_from_skip:
  assumes "\<forall>x \<in> set pre. x = [] \<or> \<not> isl (basename x)"
  shows "\<exists>reqs'. parseURLs_from reqs (pre @ rest) = parseURLs_from reqs' rest"
  using assms
proof (induction pre arbitrary: reqs)
  case Nil
  show ?case by auto
next
  case (Cons x pre)
  show ?case
  proof (cases "x = []")
    case True
    with Cons show ?thesis by simp
  next
    case False
    with Cons.prems obtain n where "basename x = Inr n"
      by (cases "basename x") auto
    with False Cons show ?thesis by simp
  qed
qed

text \<open>
  Claim C6. An entry is invalid when it is not empty and \<^verbatim>\<open>basename\<close> rejects it.
  Every list with an invalid entry splits at its first invalid entry \<open>u\<close>: the entries
  before it are empty or valid, and \<^verbatim>\<open>parseURLs\<close> returns the error of \<open>u\<close> with
  no requests, whatever comes before or after.
\<close>

theorem parseURLs_fails_atomically:
  assumes "\<exists>u \<in> set urls. u \<noteq> [] \<and> isl (basename u)"
  shows "\<exists>pre u post e. urls = pre @ u # post
           \<and> (\<forall>x \<in> set pre. x = [] \<or> \<not> isl (basename x))
           \<and> u \<noteq> [] \<and> basename u = Inl e
           \<and> parseURLs urls = ([], Some e)"
proof -
  from split_list_first_prop[OF assms] obtain pre u post where
    urls: "urls = pre @ u # post" and u: "u \<noteq> []" "isl (basename u)"
    and pre: "\<forall>x \<in> set pre. \<not> (x \<noteq> [] \<and> isl (basename x))"
    by blast
  from u(2) obtain e where e: "basename u = Inl e"
    by (cases "basename u") auto
  from pre have pre': "\<forall>x \<in> set pre. x = [] \<or> \<not> isl (basename x)" by blast
  from parseURLs_from_skip[OF pre', of "[]" "u # post"] obtain reqs' where
    "parseURLs_from [] (pre @ u # post) = parseURLs_from reqs' (u # post)" by blast
  with u(1) e have "parseURLs urls = ([], Some e)"
    by (simp add: parseURLs_def urls)
  with urls u(1) e pre' show ?thesis by blast
qed

text \<open>The second case of \<^verbatim>\<open>Test_parseURLs\<close>: a valid URL, then \<^verbatim>\<open>u fail\<close>.\<close>

theorem parseURLs_fails_atomically_witness:
  "(\<exists>u \<in> set [''https://example.com/foo.txt'', ''u fail'']. u \<noteq> [] \<and> isl (basename u))
   \<and> (\<exists>e. parseURLs [''https://example.com/foo.txt'', ''u fail''] = ([], Some e))"
proof -
  have b: "basename ''u fail'' = Inl (Errorf ''invalid uri: %s'' [Str ''u fail''])"
    by code_simp
  then have h: "\<exists>u \<in> set [''https://example.com/foo.txt'', ''u fail'']. u \<noteq> [] \<and> isl (basename u)"
    by simp
  from parseURLs_fails_atomically[OF h]
  have "\<exists>e. parseURLs [''https://example.com/foo.txt'', ''u fail''] = ([], Some e)"
    by blast
  with h show ?thesis by blast
qed

subsection \<open>The result processor\<close>

lemma check_err_cases:
  "res_err res = None \<Longrightarrow> check_err m res = Inr []"
  "res_err res = Some e \<Longrightarrow> errors_Is e Canceled \<Longrightarrow> check_err m res = Inl e"
  "res_err res = Some e \<Longrightarrow> \<not> errors_Is e Canceled \<Longrightarrow> \<not> ignoreHTTPerr m \<Longrightarrow>
     check_err m res = Inl (Wrapf ''failed: %q: %w'' [Str (res_filename res)] e)"
  "res_err res = Some e \<Longrightarrow> \<not> errors_Is e Canceled \<Longrightarrow> ignoreHTTPerr m \<Longrightarrow>
     check_err m res = Inr [Printf ''failed: %q: %s'' [Str (res_filename res), Err e]]"
  by (simp_all add: check_err_def)

text \<open>The loop reads the manager only through its error policy.\<close>

lemma check_err_policy:
  "ignoreHTTPerr m' = ignoreHTTPerr m \<Longrightarrow> check_err m' res = check_err m res"
  by (cases "res_err res") (simp_all add: check_err_def)

lemma drain_policy:
  assumes "ignoreHTTPerr m' = ignoreHTTPerr m"
  shows "drain m' tot count lg rs = drain m tot count lg rs"
proof (induction rs arbitrary: count lg)
  case Nil
  show ?case by simp
next
  case (Cons r rs)
  have "check_err m' r = check_err m r"
    using assms by (rule check_err_policy)
  with Cons.IH show ?case by (simp split: sum.splits)
qed

text \<open>Results that do not end the loop only move its state.\<close>

lemma drain_prefix:
  assumes "\<forall>r \<in> set pre. \<not> isl (check_err m r)"
  shows "\<exists>count' lg'. set lg \<subseteq> set lg'
           \<and> drain m tot count lg (pre @ rest) = drain m tot count' lg' rest"
  using assms
proof (induction pre arbitrary: count lg)
  case Nil
  show ?case by auto
next
  case (Cons r pre)
  from Cons.prems obtain ls where ls: "check_err m r = Inr ls"
    by (cases "check_err m r") auto
  from Cons.prems have "\<forall>r \<in> set pre. \<not> isl (check_err m r)" by simp
  from Cons.IH[OF this, of
      "lg @ ls @ [Printf ''downloaded % 5d/%d %q'' [Num (count + 1), Num tot, Str (res_filename r)]]"
      "count + 1"]
  obtain count' lg' where
    "set (lg @ ls @ [Printf ''downloaded % 5d/%d %q''
        [Num (count + 1), Num tot, Str (res_filename r)]]) \<subseteq> set lg'"
    "drain m tot (count + 1)
       (lg @ ls @ [Printf ''downloaded % 5d/%d %q''
          [Num (count + 1), Num tot, Str (res_filename r)]]) (pre @ rest)
     = drain m tot count' lg' rest"
    by blast
  with ls show ?case by auto
qed

lemma drain_no_cancellation:
  assumes "ignoreHTTPerr m" and "\<forall>r \<in> set rs. no_cancellation r"
  shows "\<exists>lg'. set lg \<subseteq> set lg' \<and> drain m tot count lg rs = (None, lg', [])"
  using assms(2)
proof (induction rs arbitrary: count lg)
  case Nil
  show ?case by simp
next
  case (Cons r rs)
  from Cons.prems have r: "no_cancellation r" and rs: "\<forall>r \<in> set rs. no_cancellation r"
    by simp_all
  from r assms(1) obtain ls where ls: "check_err m r = Inr ls"
    by (auto simp: no_cancellation_def check_err_def split: option.splits)
  from Cons.IH[OF rs, of
      "lg @ ls @ [Printf ''downloaded % 5d/%d %q'' [Num (count + 1), Num tot, Str (res_filename r)]]"
      "count + 1"]
  obtain lg' where
    "set (lg @ ls @ [Printf ''downloaded % 5d/%d %q''
        [Num (count + 1), Num tot, Str (res_filename r)]]) \<subseteq> set lg'"
    "drain m tot (count + 1)
       (lg @ ls @ [Printf ''downloaded % 5d/%d %q''
          [Num (count + 1), Num tot, Str (res_filename r)]]) rs
     = (None, lg', [])"
    by blast
  with ls show ?case by auto
qed

text \<open>
  When the manager is open and the URLs parse, \<^verbatim>\<open>Download\<close> returns what the loop
  returns on the results that arrive.
\<close>

lemma Download_open:
  assumes "\<not> isClosed m" and "parseURLs urls = (reqs, None)"
    and "m' = (if numWorkers m = 0 then m\<lparr>numWorkers := defNumWorkers\<rparr> else m)"
    and "drain m' (int (length urls)) 0 [] (pool c m' dir reqs) = (r, lg, rest)"
  shows "Download pool m c dir urls
           = (m', \<lparr>ret = r, logged = lg, started = Some (numWorkers m', reqs), undrained = rest\<rparr>)"
  unfolding Download_def Let_def assms(3)[symmetric]
  by (simp only: assms(1,2,4) if_False prod.case option.case)

lemma Download_drain:
  assumes "\<not> isClosed m" and "snd (parseURLs urls) = None"
  shows "ret (snd (Download (\<lambda>c m dir reqs. rs) m c dir urls))
           = fst (drain m (int (length urls)) 0 [] rs)
       \<and> logged (snd (Download (\<lambda>c m dir reqs. rs) m c dir urls))
           = fst (snd (drain m (int (length urls)) 0 [] rs))
       \<and> undrained (snd (Download (\<lambda>c m dir reqs. rs) m c dir urls))
           = snd (snd (drain m (int (length urls)) 0 [] rs))"
proof -
  define m' where "m' = (if numWorkers m = 0 then m\<lparr>numWorkers := defNumWorkers\<rparr> else m)"
  have "ignoreHTTPerr m' = ignoreHTTPerr m" by (simp add: m'_def)
  then have pol: "drain m' (int (length urls)) 0 [] rs = drain m (int (length urls)) 0 [] rs"
    by (rule drain_policy)
  obtain reqs where p: "parseURLs urls = (reqs, None)"
    using assms(2) by (cases "parseURLs urls") auto
  obtain r lg rest where d: "drain m (int (length urls)) 0 [] rs = (r, lg, rest)"
    by (cases "drain m (int (length urls)) 0 [] rs") auto
  have "Download (\<lambda>c m dir reqs. rs) m c dir urls
      = (m', \<lparr>ret = r, logged = lg, started = Some (numWorkers m', reqs), undrained = rest\<rparr>)"
    by (rule Download_open[OF assms(1) p m'_def]) (simp only: pol d)
  then show ?thesis by (simp add: d)
qed

text \<open>
  Claim C1. Let a result with a non-cancellation error \<open>e\<close> be the next one the loop
  receives, in any state of the loop. Under the tolerant policy the loop logs the
  failure and goes on with the remaining results; under the strict policy
  \<^verbatim>\<open>Download\<close> returns at once the error that wraps \<open>e\<close> and names the result's
  destination, and the remaining results are never received. The tolerant policy is
  the default of a new manager. At the level of \<^verbatim>\<open>Download\<close> (manager open, URLs
  valid): under the strict policy, after results without error, the call returns that
  wrapped error; under the tolerant policy, when no result carries a cancellation, the
  failure is in the log, every result is received and the call returns \<^verbatim>\<open>nil\<close>.
\<close>

theorem Download_fetch_error_policy:
  assumes "res_err res = Some e" and "\<not> errors_Is e Canceled"
  shows "drain m tot count lg (res # rest) =
           (if ignoreHTTPerr m
            then drain m tot (count + 1)
                   (lg @ [Printf ''failed: %q: %s'' [Str (res_filename res), Err e],
                          Printf ''downloaded % 5d/%d %q''
                            [Num (count + 1), Num tot, Str (res_filename res)]]) rest
            else (Some (Wrapf ''failed: %q: %w'' [Str (res_filename res)] e), lg, rest))
         \<and> ignoreHTTPerr (New fsa [])
         \<and> (\<not> isClosed m \<and> snd (parseURLs urls) = None \<and> \<not> ignoreHTTPerr m
              \<and> (\<forall>r \<in> set pre. res_err r = None) \<longrightarrow>
            ret (snd (Download (\<lambda>c m dir reqs. pre @ res # rest) m c dir urls))
              = Some (Wrapf ''failed: %q: %w'' [Str (res_filename res)] e)
            \<and> undrained (snd (Download (\<lambda>c m dir reqs. pre @ res # rest) m c dir urls)) = rest)
         \<and> (\<not> isClosed m \<and> snd (parseURLs urls) = None \<and> ignoreHTTPerr m
              \<and> (\<forall>r \<in> set pre. no_cancellation r) \<and> (\<forall>r \<in> set rest. no_cancellation r) \<longrightarrow>
            ret (snd (Download (\<lambda>c m dir reqs. pre @ res # rest) m c dir urls)) = None
            \<and> undrained (snd (Download (\<lambda>c m dir reqs. pre @ res # rest) m c dir urls)) = []
            \<and> Printf ''failed: %q: %s'' [Str (res_filename res), Err e]
                \<in> set (logged (snd (Download (\<lambda>c m dir reqs. pre @ res # rest) m c dir urls))))"
proof -
  let ?D = "snd (Download (\<lambda>c m dir reqs. pre @ res # rest) m c dir urls)"
  let ?n = "int (length urls)"
  have step: "drain m tot count lg (res # rest) =
           (if ignoreHTTPerr m
            then drain m tot (count + 1)
                   (lg @ [Printf ''failed: %q: %s'' [Str (res_filename res), Err e],
                          Printf ''downloaded % 5d/%d %q''
                            [Num (count + 1), Num tot, Str (res_filename res)]]) rest
            else (Some (Wrapf ''failed: %q: %w'' [Str (res_filename res)] e), lg, rest))"
    for tot count lg
    using assms by (simp add: check_err_cases)
  have dflt: "ignoreHTTPerr (New fsa [])"
    by (simp add: New_def newMgr_def)
  have strict: "ret ?D = Some (Wrapf ''failed: %q: %w'' [Str (res_filename res)] e)
      \<and> undrained ?D = rest"
    if "\<not> isClosed m" "snd (parseURLs urls) = None" "\<not> ignoreHTTPerr m"
      "\<forall>r \<in> set pre. res_err r = None"
  proof -
    from that(4) have "\<forall>r \<in> set pre. \<not> isl (check_err m r)"
      by (simp add: check_err_cases)
    from drain_prefix[OF this, of "[]" ?n 0 "res # rest"] obtain count' lg' where
      "drain m ?n 0 [] (pre @ res # rest) = drain m ?n count' lg' (res # rest)" by blast
    with step[of ?n count' lg'] that(3)
    have "drain m ?n 0 [] (pre @ res # rest)
        = (Some (Wrapf ''failed: %q: %w'' [Str (res_filename res)] e), lg', rest)"
      by simp
    with Download_drain[OF that(1,2), of "pre @ res # rest" c dir] show ?thesis
      by simp
  qed
  have tolerant: "ret ?D = None \<and> undrained ?D = []
      \<and> Printf ''failed: %q: %s'' [Str (res_filename res), Err e] \<in> set (logged ?D)"
    if "\<not> isClosed m" "snd (parseURLs urls) = None" "ignoreHTTPerr m"
      "\<forall>r \<in> set pre. no_cancellation r" "\<forall>r \<in> set rest. no_cancellation r"
  proof -
    from that(3,4) have "\<forall>r \<in> set pre. \<not> isl (check_err m r)"
      by (auto simp: check_err_def no_cancellation_def split: option.splits)
    from drain_prefix[OF this, of "[]" ?n 0 "res # rest"] obtain count' lg' where
      pre: "drain m ?n 0 [] (pre @ res # rest) = drain m ?n count' lg' (res # rest)" by blast
    from drain_no_cancellation[OF that(3,5), of
        "lg' @ [Printf ''failed: %q: %s'' [Str (res_filename res), Err e],
                Printf ''downloaded % 5d/%d %q''
                  [Num (count' + 1), Num ?n, Str (res_filename res)]]" ?n "count' + 1"]
    obtain lg'' where
      sub: "set (lg' @ [Printf ''failed: %q: %s'' [Str (res_filename res), Err e],
                Printf ''downloaded % 5d/%d %q''
                  [Num (count' + 1), Num ?n, Str (res_filename res)]]) \<subseteq> set lg''"
      and rest: "drain m ?n (count' + 1)
             (lg' @ [Printf ''failed: %q: %s'' [Str (res_filename res), Err e],
                Printf ''downloaded % 5d/%d %q''
                  [Num (count' + 1), Num ?n, Str (res_filename res)]]) rest
           = (None, lg'', [])"
      by blast
    from pre step[of ?n count' lg'] that(3) rest
    have "drain m ?n 0 [] (pre @ res # rest) = (None, lg'', [])"
      by simp
    moreover from sub have "Printf ''failed: %q: %s'' [Str (res_filename res), Err e] \<in> set lg''"
      by auto
    ultimately show ?thesis
      using Download_drain[OF that(1,2), of "pre @ res # rest" c dir] by simp
  qed
  from step[of tot count lg] dflt strict tolerant show ?thesis by blast
qed

text \<open>
  One failed result, the two URLs of the tests: the default manager returns \<^verbatim>\<open>nil\<close>,
  a manager built with \<^verbatim>\<open>IgnoreHTTPErrors(false)\<close> returns the wrapped error.
\<close>

theorem Download_fetch_error_policy_witness:
  "res_err failed_result = Some (errors_New ''your shattered hopes'')
   \<and> \<not> errors_Is (errors_New ''your shattered hopes'') Canceled
   \<and> \<not> isClosed (New temp_dir []) \<and> snd (parseURLs test_urls) = None
   \<and> ignoreHTTPerr (New temp_dir [])
   \<and> \<not> ignoreHTTPerr (New temp_dir [IgnoreHTTPErrors False])
   \<and> ret (snd (Download (\<lambda>c m dir reqs. [failed_result]) (New temp_dir []) None [] test_urls))
       = None
   \<and> ret (snd (Download (\<lambda>c m dir reqs. [failed_result])
              (New temp_dir [IgnoreHTTPErrors False]) None [] test_urls))
       = Some (Wrapf ''failed: %q: %w'' [Str ''foo.txt''] (errors_New ''your shattered hopes''))"
proof -
  have p: "snd (parseURLs test_urls) = None" by code_simp
  have e: "res_err failed_result = Some (errors_New ''your shattered hopes'')"
    by (simp add: failed_result_def)
  have n: "\<not> errors_Is (errors_New ''your shattered hopes'') Canceled" by simp
  have m: "\<not> isClosed (New temp_dir [])" "ignoreHTTPerr (New temp_dir [])"
    "\<not> isClosed (New temp_dir [IgnoreHTTPErrors False])"
    "\<not> ignoreHTTPerr (New temp_dir [IgnoreHTTPErrors False])"
    by (simp_all add: New_def newMgr_def IgnoreHTTPErrors_def)
  from Download_fetch_error_policy[OF e n, where m = "New temp_dir []" and pre = "[]"
      and rest = "[]" and urls = test_urls and c = None and dir = "[]"] p m
  have a: "ret (snd (Download (\<lambda>c m dir reqs. [failed_result]) (New temp_dir []) None []
      test_urls)) = None"
    by simp
  from Download_fetch_error_policy[OF e n, where m = "New temp_dir [IgnoreHTTPErrors False]"
      and pre = "[]" and rest = "[]" and urls = test_urls and c = None and dir = "[]"] p m
  have b: "ret (snd (Download (\<lambda>c m dir reqs. [failed_result])
      (New temp_dir [IgnoreHTTPErrors False]) None [] test_urls))
       = Some (Wrapf ''failed: %q: %w'' [Str ''foo.txt''] (errors_New ''your shattered hopes''))"
    by (simp add: failed_result_def)
  from e n p m a b show ?thesis by simp
qed

text \<open>
  Claim C2. Let the results that arrive be \<open>pre\<close>, then \<open>res\<close> with a
  cancellation-flavoured error \<open>e\<close>, then \<open>rest\<close>, where every result of \<open>pre\<close> was
  drained without ending the loop: it carried no error, or a non-cancellation error
  under the tolerant policy. So \<open>res\<close> is the first cancellation among the drained
  results. Then \<^verbatim>\<open>Download\<close> returns \<open>e\<close> itself and \<open>rest\<close> is never received.
  At \<open>res\<close> the policy plays no part: in every state of the loop and for every
  manager the loop returns \<open>e\<close> at once.
\<close>

theorem Download_cancellation_aborts:
  assumes "\<not> isClosed m" and "snd (parseURLs urls) = None"
    and "\<forall>r \<in> set pre. res_err r = None \<or> ignoreHTTPerr m \<and> no_cancellation r"
    and "res_err res = Some e" and "errors_Is e Canceled"
  shows "ret (snd (Download (\<lambda>c m dir reqs. pre @ res # rest) m c dir urls)) = Some e
         \<and> undrained (snd (Download (\<lambda>c m dir reqs. pre @ res # rest) m c dir urls)) = rest
         \<and> (\<forall>m' tot count lg. drain m' tot count lg (res # rest) = (Some e, lg, rest))"
proof -
  let ?n = "int (length urls)"
  have step: "drain m' tot count lg (res # rest) = (Some e, lg, rest)" for m' tot count lg
    using assms(4,5) by (simp add: check_err_cases)
  have "\<forall>r \<in> set pre. \<not> isl (check_err m r)"
    using assms(3) by (auto simp: check_err_def no_cancellation_def split: option.splits)
  from drain_prefix[OF this, of "[]" ?n 0 "res # rest"] obtain count' lg' where
    "drain m ?n 0 [] (pre @ res # rest) = drain m ?n count' lg' (res # rest)" by blast
  with step have "drain m ?n 0 [] (pre @ res # rest) = (Some e, lg', rest)" by simp
  with Download_drain[OF assms(1,2), of "pre @ res # rest" c dir] step show ?thesis
    by simp
qed

text \<open>
  A strict manager receives a success, the worker's cancellation result and a failure:
  it returns \<^verbatim>\<open>context.Canceled\<close> and leaves the failure unread.
\<close>

theorem Download_cancellation_aborts_witness:
  "\<not> isClosed (New temp_dir [IgnoreHTTPErrors False]) \<and> snd (parseURLs test_urls) = None
   \<and> res_err cancelled_result = Some Canceled \<and> errors_Is Canceled Canceled
   \<and> ret (snd (Download
        (\<lambda>c m dir reqs. [\<lparr>res_filename = ''bar.jpg'', res_err = None\<rparr>, cancelled_result,
                           failed_result])
        (New temp_dir [IgnoreHTTPErrors False]) (Some Canceled) [] test_urls)) = Some Canceled
   \<and> undrained (snd (Download
        (\<lambda>c m dir reqs. [\<lparr>res_filename = ''bar.jpg'', res_err = None\<rparr>, cancelled_result,
                           failed_result])
        (New temp_dir [IgnoreHTTPErrors False]) (Some Canceled) [] test_urls)) = [failed_result]"
proof -
  have p: "snd (parseURLs test_urls) = None" by code_simp
  have m: "\<not> isClosed (New temp_dir [IgnoreHTTPErrors False])"
    by (simp add: New_def newMgr_def IgnoreHTTPErrors_def)
  have pre: "\<forall>r \<in> set [\<lparr>res_filename = ''bar.jpg'', res_err = None\<rparr>].
      res_err r = None \<or> ignoreHTTPerr (New temp_dir [IgnoreHTTPErrors False]) \<and> no_cancellation r"
    by simp
  have c: "res_err cancelled_result = Some Canceled" "errors_Is Canceled Canceled"
    by (simp_all add: cancelled_result_def)
  from Download_cancellation_aborts[OF m p pre c, where rest = "[failed_result]"
      and c = "Some Canceled" and dir = "[]"]
    m p c show ?thesis by simp
qed

text \<open>
  Claim C8 fails on the code. Under the tolerant policy a failed result is logged as
  failed and, since the loop then falls through to its last two statements, is also
  counted and logged as downloaded.
\<close>

theorem drain_logs_failed_result_as_downloaded:
  "drain (New temp_dir []) 1 0 [] [failed_result]
   = (None,
      [Printf ''failed: %q: %s'' [Str ''foo.txt'', Err (errors_New ''your shattered hopes'')],
       Printf ''downloaded % 5d/%d %q'' [Num 1, Num 1, Str ''foo.txt'']],
      [])"
  by (simp add: New_def newMgr_def check_err_def failed_result_def)

subsection \<open>The manager's configuration\<close>

lemma Download_manager:
  "numWorkers m \<noteq> 0 \<Longrightarrow> fst (Download pool m c dir urls) = m"
  by (simp add: Download_def Let_def split: prod.splits option.splits)

text \<open>
  The two options of the package keep the worker count positive and touch neither the
  fetch function nor the file system.
\<close>

lemma fold_package_options:
  assumes "\<forall>opt \<in> set opts. opt \<in> range NumWorkers \<union> range IgnoreHTTPErrors"
  shows "1 \<le> numWorkers m \<Longrightarrow>
     1 \<le> numWorkers (fold (\<lambda>opt m. opt m) opts m)
     \<and> fetchFn (fold (\<lambda>opt m. opt m) opts m) = fetchFn m
     \<and> fsc (fold (\<lambda>opt m. opt m) opts m) = fsc m
     \<and> isClosed (fold (\<lambda>opt m. opt m) opts m) = isClosed m"
  using assms
proof (induction opts arbitrary: m)
  case Nil
  then show ?case by simp
next
  case (Cons opt opts)
  from Cons.prems(2) have opt: "opt \<in> range NumWorkers \<union> range IgnoreHTTPErrors"
    and rest: "\<forall>opt \<in> set opts. opt \<in> range NumWorkers \<union> range IgnoreHTTPErrors"
    by simp_all
  from opt Cons.prems(1) have m': "1 \<le> numWorkers (opt m)" "fetchFn (opt m) = fetchFn m"
      "fsc (opt m) = fsc m" "isClosed (opt m) = isClosed m"
    by (auto simp: NumWorkers_def IgnoreHTTPErrors_def defNumWorkers_def)
  from Cons.IH[OF m'(1) rest] m' show ?case by simp
qed

lemma newMgr_package_options:
  assumes "\<forall>opt \<in> set opts. opt \<in> range NumWorkers \<union> range IgnoreHTTPErrors"
  shows "1 \<le> numWorkers (newMgr fc opts)" and "fetchFn (newMgr fc opts) = get"
  using fold_package_options[OF assms,
      of "\<lparr>numWorkers = defNumWorkers, fetchFn = get, ignoreHTTPerr = True, fsc = fc,
           isClosed = False\<rparr>"]
  by (simp_all add: newMgr_def defNumWorkers_def)

text \<open>
  Claim C9. Let \<open>m\<close> be built by \<^verbatim>\<open>New\<close> or \<^verbatim>\<open>NewWithPath\<close> from options that the
  package's two option constructors made. Then the manager that \<^verbatim>\<open>Download\<close>
  leaves behind has the worker count, the error policy and the fetch function of \<open>m\<close>,
  and so has the manager that \<^verbatim>\<open>Close\<close> leaves behind: no method sets them. The
  worker count of \<open>m\<close> is at least 1, which is why the assignment at the head of
  \<^verbatim>\<open>Download\<close> never runs, and its fetch function is \<^verbatim>\<open>get\<close>, which no option
  replaces.
\<close>

theorem Download_keeps_configuration:
  assumes "\<forall>opt \<in> set opts. opt \<in> range NumWorkers \<union> range IgnoreHTTPErrors"
    and "m = New fsa opts \<or> NewWithPath pf zipOrDir opts = Inr m"
  shows "numWorkers (fst (Download pool m c dir urls)) = numWorkers m
         \<and> ignoreHTTPerr (fst (Download pool m c dir urls)) = ignoreHTTPerr m
         \<and> fetchFn (fst (Download pool m c dir urls)) = fetchFn m
         \<and> numWorkers (fst (Close m)) = numWorkers m
         \<and> ignoreHTTPerr (fst (Close m)) = ignoreHTTPerr m
         \<and> fetchFn (fst (Close m)) = fetchFn m
         \<and> 1 \<le> numWorkers m \<and> fetchFn m = get"
proof -
  from assms(2) obtain fc where
    m: "m = newMgr fc opts \<or> m = (newMgr fc opts)\<lparr>isClosed := False\<rparr>"
    by (auto simp: New_def NewWithPath_def split: sum.splits)
  with newMgr_package_options[OF assms(1), of fc]
  have n: "1 \<le> numWorkers m" and f: "fetchFn m = get"
    by auto
  from n have "fst (Download pool m c dir urls) = m"
    by (intro Download_manager) simp
  moreover have "numWorkers (fst (Close m)) = numWorkers m
      \<and> ignoreHTTPerr (fst (Close m)) = ignoreHTTPerr m
      \<and> fetchFn (fst (Close m)) = fetchFn m"
    by (simp add: Close_def split: FSCloser.splits)
  ultimately show ?thesis using n f by simp
qed

text \<open>
  A manager built with \<^verbatim>\<open>NumWorkers(0)\<close> and \<^verbatim>\<open>IgnoreHTTPErrors(false)\<close> has 12
  workers and the strict policy, before and after a download of the test URLs.
\<close>

theorem Download_keeps_configuration_witness:
  "NumWorkers 0 \<in> range NumWorkers \<and> IgnoreHTTPErrors False \<in> range IgnoreHTTPErrors
   \<and> numWorkers (New temp_dir [NumWorkers 0, IgnoreHTTPErrors False]) = 12
   \<and> numWorkers (fst (Download (\<lambda>c m dir reqs. [cancelled_result])
        (New temp_dir [NumWorkers 0, IgnoreHTTPErrors False]) None [] test_urls)) = 12
   \<and> \<not> ignoreHTTPerr (fst (Download (\<lambda>c m dir reqs. [cancelled_result])
        (New temp_dir [NumWorkers 0, IgnoreHTTPErrors False]) None [] test_urls))
   \<and> fetchFn (fst (Download (\<lambda>c m dir reqs. [cancelled_result])
        (New temp_dir [NumWorkers 0, IgnoreHTTPErrors False]) None [] test_urls)) = get"
proof -
  have opts: "\<forall>opt \<in> set [NumWorkers 0, IgnoreHTTPErrors False].
      opt \<in> range NumWorkers \<union> range IgnoreHTTPErrors"
    by simp
  have m: "numWorkers (New temp_dir [NumWorkers 0, IgnoreHTTPErrors False]) = 12"
    "\<not> ignoreHTTPerr (New temp_dir [NumWorkers 0, IgnoreHTTPErrors False])"
    by (simp_all add: New_def newMgr_def NumWorkers_def IgnoreHTTPErrors_def defNumWorkers_def)
  from Download_keeps_configuration[OF opts disjI1[OF refl],
      where pool = "\<lambda>c m dir reqs. [cancelled_result]" and c = None and dir = "[]"
        and urls = test_urls and fsa = temp_dir] opts m
  show ?thesis by simp
qed

subsection \<open>The convenience wrapper\<close>

text \<open>
  Claim C7. When \<^verbatim>\<open>fsadapter.New\<close> fails on the path, so that \<^verbatim>\<open>NewWithPath\<close>
  fails with that error, \<^verbatim>\<open>DownloadToPath\<close> returns \<^verbatim>\<open>nil\<close>; nothing is logged and
  the pipeline is never started.
\<close>

theorem DownloadToPath_swallows_construction_error:
  assumes "fsadapter_New pf zipOrDir = Inl e"
  shows "NewWithPath pf zipOrDir opts = Inl e
         \<and> DownloadToPath pf pool c zipOrDir subdir urls opts
             = \<lparr>ret = None, logged = [], started = None, undrained = []\<rparr>"
  using assms by (simp add: NewWithPath_def DownloadToPath_def)

text \<open>The adapter of the fixture cannot be opened on the empty path.\<close>

theorem DownloadToPath_swallows_construction_error_witness:
  "fsadapter_New test_server [] = Inl (errors_New ''empty path'')
   \<and> NewWithPath test_server [] [] = Inl (errors_New ''empty path'')
   \<and> DownloadToPath test_server (\<lambda>c m dir reqs. [failed_result]) None [] [] test_urls []
       = \<lparr>ret = None, logged = [], started = None, undrained = []\<rparr>"
proof -
  have h: "fsadapter_New test_server [] = Inl (errors_New ''empty path'')"
    by (simp add: test_server_def)
  from DownloadToPath_swallows_construction_error[OF h] h show ?thesis by simp
qed

subsection \<open>Fetching one file\<close>

text \<open>
  Claim C5, as amended. Let the GET succeed (the request can be built and the client
  returns a response) with a status other than 200. If the destination file at
  \<^verbatim>\<open>filepath.Join(dir, filename)\<close> can be created, \<^verbatim>\<open>get\<close> returns the error that
  carries the status code and the status text, and the file exists, empty, in the
  storage it leaves. If it cannot be created, \<^verbatim>\<open>get\<close> returns the wrapped creation
  error instead, and the storage is as it was.
\<close>

theorem get_bad_status:
  assumes "url_Parse uri = Inr u" and "Do pf c uri = Inr resp" and "StatusCode resp \<noteq> 200"
  shows "get pf c fsa dir filename uri =
           (case create_err fsa (Join pf dir filename) of
              Some e \<Rightarrow>
                (Some (Wrapf ''error creating the file at path %q: %w''
                         [Str (Join pf dir filename)] e), fsa)
            | None \<Rightarrow>
                (Some (Errorf ''invalid server status code: %d (%s)''
                         [Num (StatusCode resp), Str (Status resp)]),
                 fsa\<lparr>files := (files fsa)(Join pf dir filename \<mapsto> [])\<rparr>))"
  using assms by (simp add: get_def Create_def Let_def split: option.splits)

text \<open>The case 404 of \<^verbatim>\<open>Test_get\<close>: an error, and the file \<^verbatim>\<open>test/file\<close> exists.\<close>

theorem get_bad_status_witness:
  "url_Parse ''http://127.0.0.1:8080''
     = Inr \<lparr>Scheme = ''http'', Opaque = [], Host = ''127.0.0.1:8080'', Path = [],
            ForceQuery = False, RawQuery = [], Fragment = []\<rparr>
   \<and> Do test_server None ''http://127.0.0.1:8080'' = Inr not_found
   \<and> StatusCode not_found \<noteq> 200
   \<and> fst (get test_server None temp_dir ''test'' ''file'' ''http://127.0.0.1:8080'')
       = Some (Errorf ''invalid server status code: %d (%s)'' [Num 404, Str ''404 Not Found''])
   \<and> files (snd (get test_server None temp_dir ''test'' ''file'' ''http://127.0.0.1:8080''))
       ''test/file'' = Some []"
proof -
  have u: "url_Parse ''http://127.0.0.1:8080''
     = Inr \<lparr>Scheme = ''http'', Opaque = [], Host = ''127.0.0.1:8080'', Path = [],
            ForceQuery = False, RawQuery = [], Fragment = []\<rparr>"
    by code_simp
  have d: "Do test_server None ''http://127.0.0.1:8080'' = Inr not_found"
    by (simp add: test_server_def)
  have s: "StatusCode not_found \<noteq> 200"
    by (simp add: not_found_def)
  from get_bad_status[OF u d s, of temp_dir "''test''" "''file''"] u d s
  show ?thesis by (simp add: temp_dir_def test_server_def not_found_def)
qed

text \<open>
  Claim C5 as stated fails: the same GET, status 404, into a directory in which the
  file cannot be created. \<^verbatim>\<open>get\<close> returns the creation error, which carries no
  status, and the file does not exist.
\<close>

theorem get_bad_status_without_file:
  "fst (get test_server None readonly_dir ''test'' ''file'' ''http://127.0.0.1:8080'')
     = Some (Wrapf ''error creating the file at path %q: %w'' [Str ''test/file'']
               (errors_New ''permission denied''))
   \<and> files (snd (get test_server None readonly_dir ''test'' ''file'' ''http://127.0.0.1:8080''))
       ''test/file'' = None"
  by code_simp

subsection \<open>The worker\<close>

text \<open>
  When the context is done and \<^verbatim>\<open>select\<close> takes that case, the worker sends one
  result, with the empty name and the context's error, having fetched nothing and
  received no request. It returns when a receiver takes the result and blocks in the
  send for ever when none does.
\<close>

lemma worker_done:
  assumes "requestC = [] \<and> \<not> closed \<or> pick i = case_Done"
  shows "worker pf m (Some e) dir pick i closed requestC takes st
           = (if 0 < takes
              then (Returned,
                    st\<lparr>posted := posted st @ [\<lparr>res_filename = [], res_err = Some e\<rparr>]\<rparr>,
                    requestC)
              else (Blocked_send \<lparr>res_filename = [], res_err = Some e\<rparr>, st, requestC))"
  using assms by (cases requestC) (auto simp: post_def)

text \<open>
  Claim C4, as amended. Take a worker whose context is already cancelled and whose
  \<^verbatim>\<open>select\<close> takes the case of the context: it must when the request channel has
  nothing ready (no request is offered and the channel is not closed), and it may
  whenever the context is done. The worker calls the fetch function for no request,
  leaves the storage alone and leaves every queued request unreceived. It sends one
  result, with the empty destination name and the cancellation error. If a receiver
  takes that result from the unbuffered \<^verbatim>\<open>resultC\<close>, exactly that one result is posted
  and the worker returns; if none does, as after \<^verbatim>\<open>Download\<close> has returned, nothing
  is posted and the worker blocks in the send for ever.
\<close>

theorem worker_cancelled:
  assumes "requestC = [] \<and> \<not> closed \<or> pick i = case_Done"
  shows "worker pf m (Some Canceled) dir pick i closed requestC takes st
           = (if 0 < takes
              then (Returned,
                    st\<lparr>posted := posted st @ [\<lparr>res_filename = [], res_err = Some Canceled\<rparr>]\<rparr>,
                    requestC)
              else (Blocked_send \<lparr>res_filename = [], res_err = Some Canceled\<rparr>, st, requestC))
         \<and> fetched (fst (snd (worker pf m (Some Canceled) dir pick i closed requestC takes st)))
             = fetched st
         \<and> storage (fst (snd (worker pf m (Some Canceled) dir pick i closed requestC takes st)))
             = storage st
         \<and> snd (snd (worker pf m (Some Canceled) dir pick i closed requestC takes st)) = requestC"
  using assms
    worker_done[where requestC = requestC and closed = closed and pick = pick and i = i
      and pf = pf and m = m and e = Canceled and dir = dir and st = st and takes = takes]
  by simp

text \<open>
  The case \<^verbatim>\<open>cancelled context\<close> of \<^verbatim>\<open>Test_worker\<close> (no request, channel left
  open, a receiver that reads on); a queued request that stays in the queue when
  \<^verbatim>\<open>select\<close> takes the cancellation; and the same worker with no receiver left.
\<close>

theorem worker_cancelled_witness:
  "(case worker test_server ((New temp_dir [])\<lparr>fetchFn := emptyFetchFn\<rparr>) (Some Canceled) []
        (\<lambda>i. case_Recv) 0 False [] 1 fresh of
      (how, st, left) \<Rightarrow> (how, posted st, fetched st, left))
     = (Returned, [cancelled_result], [], [])
   \<and> (case worker test_server ((New temp_dir [])\<lparr>fetchFn := emptyFetchFn\<rparr>) (Some Canceled) []
        (\<lambda>i. case_Done) 0 True [test_request] 1 fresh of
      (how, st, left) \<Rightarrow> (how, posted st, fetched st, left))
     = (Returned, [cancelled_result], [], [test_request])
   \<and> (case worker test_server ((New temp_dir [])\<lparr>fetchFn := emptyFetchFn\<rparr>) (Some Canceled) []
        (\<lambda>i. case_Done) 0 True [test_request] 0 fresh of
      (how, st, left) \<Rightarrow> (how, posted st, fetched st, left))
     = (Blocked_send cancelled_result, [], [], [test_request])"
proof -
  let ?m = "(New temp_dir [])\<lparr>fetchFn := emptyFetchFn\<rparr>"
  let ?c = "\<lparr>res_filename = [], res_err = Some Canceled\<rparr>"
  have a: "worker test_server ?m (Some Canceled) [] (\<lambda>i. case_Recv) 0 False [] 1 fresh
      = (Returned, fresh\<lparr>posted := posted fresh @ [?c]\<rparr>, [])"
    using worker_cancelled[where requestC = "[]" and closed = False and pick = "\<lambda>i. case_Recv"
        and i = 0 and pf = test_server and m = ?m and dir = "[]" and st = fresh and takes = 1]
    by simp
  have b: "worker test_server ?m (Some Canceled) [] (\<lambda>i. case_Done) 0 True [test_request] 1 fresh
      = (Returned, fresh\<lparr>posted := posted fresh @ [?c]\<rparr>, [test_request])"
    using worker_cancelled[where requestC = "[test_request]" and closed = True
        and pick = "\<lambda>i. case_Done" and i = 0 and pf = test_server and m = ?m and dir = "[]"
        and st = fresh and takes = 1]
    by simp
  have c: "worker test_server ?m (Some Canceled) [] (\<lambda>i. case_Done) 0 True [test_request] 0 fresh
      = (Blocked_send ?c, fresh, [test_request])"
    using worker_cancelled[where requestC = "[test_request]" and closed = True
        and pick = "\<lambda>i. case_Done" and i = 0 and pf = test_server and m = ?m and dir = "[]"
        and st = fresh and takes = 0]
    by simp
  show ?thesis
    unfolding a b c by (simp add: fresh_def cancelled_result_def)
qed

text \<open>
  Claim C4 as stated fails: the context is cancelled, a sender offers the request of the
  tests and a receiver takes every result. Both cases of \<^verbatim>\<open>select\<close> can proceed; when
  it takes the receive, the worker calls the fetch function for the request and posts
  its result, and only then, with nothing left to receive, posts the cancellation and
  returns. Two results are posted and one fetch is made.
\<close>

theorem worker_cancelled_may_fetch:
  "(case worker test_server ((New temp_dir [])\<lparr>fetchFn := emptyFetchFn\<rparr>) (Some Canceled) []
        (\<lambda>i. case_Recv) 0 False [test_request] 2 fresh of
      (how, st, left) \<Rightarrow> (how, posted st, fetched st, left))
   = (Returned, [\<lparr>res_filename = ''test'', res_err = None\<rparr>, cancelled_result],
      [test_request], [])"
  by (simp add: emptyFetchFn_def post_def fresh_def test_request_def cancelled_result_def)

subsection \<open>Deadlines are not cancellations\<close>







end
